theory Spec2Isabelle
  imports Complex_Main "HOL-Library.Char_ord" "HOL-Library.List_Lexorder"
begin

section \<open>The travel tracker: data model\<close>

text \<open>
  The theory embeds the two programs of the repository: \<^verbatim>\<open>app.py\<close> (the interactive
  dashboard with its flight and hotel forms) and \<^verbatim>\<open>import_data.py\<close> (the batch importer
  of the airline and hotel activity exports). Python values keep their shape: a
  \<^verbatim>\<open>dict\<close> read from JSON is an association list, a pandas frame is a column list
  with its rows, an exception is the \<open>Inl\<close> of a sum.

  The library calls stay parameters of the model, since their code is not part of the
  repository:
  \<^item> \<open>up\<close>, the string \<^verbatim>\<open>s.upper()\<close>;
  \<^item> \<open>gd\<close>, the miles of \<^verbatim>\<open>geopy.distance.geodesic(start, end)\<close>;
  \<^item> \<open>ymd\<close>, the text of \<^verbatim>\<open>pd.to_datetime(x).strftime('%Y-%m-%d')\<close>, \<open>None\<close> where
    the call raises;
  \<^item> \<open>to_datetime\<close>, what \<^verbatim>\<open>pd.to_datetime(x)\<close> gives on a value other than
    \<^verbatim>\<open>None\<close>;
  \<^item> \<open>reread\<close>, the frame \<^verbatim>\<open>pd.read_csv\<close> returns from the file that
    \<^verbatim>\<open>to_csv(index=False)\<close> wrote from a frame.
\<close>

subsection \<open>Strings\<close>

text \<open>\<^verbatim>\<open>needle in hay\<close> on two strings: \<open>needle\<close> occurs as a contiguous run.\<close>

fun str_in :: "string \<Rightarrow> string \<Rightarrow> bool" where
  "str_in needle [] = (needle = [])"
| "str_in needle (h # hs) = (take (length needle) (h # hs) = needle \<or> str_in needle hs)"

subsection \<open>Python errors\<close>

datatype py_error =
    FileNotFoundError
  | EmptyDataError
  | AttributeError
  | KeyError
  | TypeError
  | DateParseError

text \<open>Sequencing of a computation that may raise: the first exception ends it.\<close>

definition bindE :: "py_error + 'a \<Rightarrow> ('a \<Rightarrow> py_error + 'b) \<Rightarrow> py_error + 'b" where
  "bindE m f = (case m of Inl e \<Rightarrow> Inl e | Inr x \<Rightarrow> f x)"

subsection \<open>JSON values as \<^verbatim>\<open>json.load\<close> returns them\<close>

datatype json =
    JNull
  | JBool bool
  | JNum real
  | JStr string
  | JArr "json list"
  | JObj "(string \<times> json) list"

text \<open>Python truthiness, as \<^verbatim>\<open>x or y\<close> and \<^verbatim>\<open>if x\<close> read it.\<close>

fun truthy :: "json \<Rightarrow> bool" where
  "truthy JNull = False"
| "truthy (JBool b) = b"
| "truthy (JNum n) = (n \<noteq> 0)"
| "truthy (JStr s) = (s \<noteq> [])"
| "truthy (JArr xs) = (xs \<noteq> [])"
| "truthy (JObj kvs) = (kvs \<noteq> [])"

definition py_or :: "json \<Rightarrow> json \<Rightarrow> json" where
  "py_or a b = (if truthy a then a else b)"

text \<open>
  \<^verbatim>\<open>x.get(key, default)\<close>: only a dict has the method; on a dict the value stored
  under the key is returned whatever it is (also \<^verbatim>\<open>None\<close>), the default only when the
  key is absent.
\<close>

definition dict_get :: "(string \<times> json) list \<Rightarrow> string \<Rightarrow> json \<Rightarrow> json" where
  "dict_get kvs k dflt = (case map_of kvs k of Some v \<Rightarrow> v | None \<Rightarrow> dflt)"

fun py_get :: "json \<Rightarrow> string \<Rightarrow> json \<Rightarrow> py_error + json" where
  "py_get (JObj kvs) k dflt = Inr (dict_get kvs k dflt)"
| "py_get _ k dflt = Inl AttributeError"

text \<open>\<^verbatim>\<open>x.upper()\<close>: only a string has the method.\<close>

fun py_upper :: "(string \<Rightarrow> string) \<Rightarrow> json \<Rightarrow> py_error + string" where
  "py_upper up (JStr s) = Inr (up s)"
| "py_upper up _ = Inl AttributeError"

text \<open>
  \<^verbatim>\<open>key in x\<close>, \<^verbatim>\<open>x[key]\<close> with a string key, and \<^verbatim>\<open>for item in x\<close>, on whatever
  JSON value \<open>x\<close> is: a list is searched for the key as an element, a string for the
  key as a substring; only a dict can be indexed by a string; a dict iterates over its
  keys, a string over its characters.
\<close>

fun py_in :: "string \<Rightarrow> json \<Rightarrow> py_error + bool" where
  "py_in k (JObj kvs) = Inr (map_of kvs k \<noteq> None)"
| "py_in k (JArr xs) = Inr (List.member xs (JStr k))"
| "py_in k (JStr s) = Inr (str_in k s)"
| "py_in k _ = Inl TypeError"

fun py_index :: "json \<Rightarrow> string \<Rightarrow> py_error + json" where
  "py_index (JObj kvs) k = (case map_of kvs k of Some v \<Rightarrow> Inr v | None \<Rightarrow> Inl KeyError)"
| "py_index _ k = Inl TypeError"

fun py_iter :: "json \<Rightarrow> py_error + json list" where
  "py_iter (JArr xs) = Inr xs"
| "py_iter (JObj kvs) = Inr (map (\<lambda>kv. JStr (fst kv)) kvs)"
| "py_iter (JStr s) = Inr (map (\<lambda>c. JStr [c]) s)"
| "py_iter _ = Inl TypeError"

subsection \<open>The airport reference table\<close>

type_synonym coord = "real \<times> real"

definition AIRPORT_DB :: "string \<rightharpoonup> coord" where
  "AIRPORT_DB = map_of
     [(''DFW'', (32.8998, -97.0403)), (''LGA'', (40.7769, -73.8740)),
      (''JFK'', (40.6413, -73.7781)), (''LHR'', (51.4700, -0.4543)),
      (''ORD'', (41.9742, -87.9073)), (''LAX'', (33.9416, -118.4085)),
      (''MIA'', (25.7959, -80.2870)), (''DCA'', (38.8512, -77.0377)),
      (''SFO'', (37.6213, -122.3790)), (''ATL'', (33.6407, -84.4277)),
      (''DEN'', (39.8561, -104.6737)), (''SEA'', (47.4502, -122.3088)),
      (''DAL'', (32.8471, -96.8517)), (''STL'', (38.7487, -90.3700)),
      (''CLT'', (35.2140, -80.9431)), (''PHX'', (33.4343, -112.0116)),
      (''HEL'', (60.3172, 24.9633)), (''AMS'', (52.3081, 4.7661)),
      (''EWR'', (40.6895, -74.1745))]"

subsection \<open>The distance calculator\<close>

text \<open>\<^verbatim>\<open>int(x)\<close> on a float: truncation towards zero.\<close>

definition py_int :: "real \<Rightarrow> int" where
  "py_int x = (if 0 \<le> x then \<lfloor>x\<rfloor> else \<lceil>x\<rceil>)"

definition calculate_distance :: "(coord \<Rightarrow> coord \<Rightarrow> real) \<Rightarrow> string \<Rightarrow> string \<Rightarrow> int" where
  "calculate_distance gd origin_code dest_code =
     (case (AIRPORT_DB origin_code, AIRPORT_DB dest_code) of
        (Some start, Some end) \<Rightarrow> py_int (gd start end)
      | _ \<Rightarrow> 0)"

subsection \<open>Tables and the store\<close>

text \<open>
  A cell of a pandas frame. A date is held as the ISO text the tabular file shows for it;
  \<open>CNaN\<close> is the missing value \<^verbatim>\<open>pd.concat\<close> fills in.
\<close>

datatype cell = CStr string | CInt int | CFloat real | CNaN

record frame =
  columns :: "string list"
  rws :: "cell list list"

text \<open>
  The store maps a path to the frame its file was written from; a path outside the domain
  is an absent file. \<^verbatim>\<open>df.to_csv(file, index=False)\<close> replaces what the file holds.
  \<^verbatim>\<open>pd.read_csv(file)\<close> raises \<^verbatim>\<open>FileNotFoundError\<close> on an absent file and
  \<^verbatim>\<open>EmptyDataError\<close> on a file written from a frame with no columns (it has no header
  line); otherwise it returns what the text of the file reads as, \<open>reread df\<close>, which
  need not be the frame \<open>df\<close> that was written: an empty text comes back as the missing
  value, a text of digits as a number.
\<close>

type_synonym store = "string \<rightharpoonup> frame"

definition read_csv :: "(frame \<Rightarrow> frame) \<Rightarrow> store \<Rightarrow> string \<Rightarrow> py_error + frame" where
  "read_csv reread fs file =
     (case fs file of
        None \<Rightarrow> Inl FileNotFoundError
      | Some df \<Rightarrow> if columns df = [] then Inl EmptyDataError else Inr (reread df))"

definition load_data ::
  "(frame \<Rightarrow> frame) \<Rightarrow> store \<Rightarrow> string \<Rightarrow> string list \<Rightarrow> py_error + frame" where
  "load_data reread fs file cols =
     (case read_csv reread fs file of
        Inr df \<Rightarrow> Inr df
      | Inl FileNotFoundError \<Rightarrow> Inr \<lparr>columns = cols, rws = []\<rparr>
      | Inl e \<Rightarrow> Inl e)"

definition save_data :: "frame \<Rightarrow> string \<Rightarrow> store \<Rightarrow> store" where
  "save_data df file fs = fs(file \<mapsto> df)"

text \<open>
  \<^verbatim>\<open>pd.concat([a, b], ignore_index=True)\<close>: the columns of \<open>a\<close>, then those of \<open>b\<close> that
  \<open>a\<close> lacks; the rows of \<open>a\<close>, then those of \<open>b\<close>, each laid out on the joint columns
  with the missing value where its own frame has no such column.
\<close>

definition cell_of :: "string list \<Rightarrow> cell list \<Rightarrow> string \<Rightarrow> cell option" where
  "cell_of cols row c = map_of (zip cols row) c"

definition reindex :: "string list \<Rightarrow> string list \<Rightarrow> cell list \<Rightarrow> cell list" where
  "reindex new_cols cols row =
     map (\<lambda>c. case cell_of cols row c of Some v \<Rightarrow> v | None \<Rightarrow> CNaN) new_cols"

definition pd_concat :: "frame \<Rightarrow> frame \<Rightarrow> frame" where
  "pd_concat a b =
     (let cols = columns a @ filter (\<lambda>c. c \<notin> set (columns a)) (columns b)
      in \<lparr>columns = cols,
          rws = map (reindex cols (columns a)) (rws a) @ map (reindex cols (columns b)) (rws b)\<rparr>)"

text \<open>
  The append of both forms (\<^verbatim>\<open>app.py\<close>, lines 197-198 and 267-268): load the current
  table, concatenate the one-row frame, save.
\<close>

definition append_row ::
  "(frame \<Rightarrow> frame) \<Rightarrow> store \<Rightarrow> string \<Rightarrow> frame \<Rightarrow> py_error + store" where
  "append_row reread fs file new_row =
     bindE (load_data reread fs file (columns new_row))
       (\<lambda>df_curr. Inr (save_data (pd_concat df_curr new_row) file fs))"

subsection \<open>Flight records\<close>

record flight =
  Date :: string
  Airline :: string
  Origin :: string
  Destination :: string
  Miles :: int
  Origin_Lat :: real
  Origin_Lon :: real
  Dest_Lat :: real
  Dest_Lon :: real

definition flight_columns :: "string list" where
  "flight_columns =
     [''Date'', ''Airline'', ''Origin'', ''Destination'', ''Miles'',
      ''Origin_Lat'', ''Origin_Lon'', ''Dest_Lat'', ''Dest_Lon'']"

definition flight_row :: "flight \<Rightarrow> cell list" where
  "flight_row f =
     [CStr (Date f), CStr (Airline f), CStr (Origin f), CStr (Destination f),
      CInt (Miles f), CFloat (Origin_Lat f), CFloat (Origin_Lon f),
      CFloat (Dest_Lat f), CFloat (Dest_Lon f)]"

text \<open>
  \<^verbatim>\<open>pd.DataFrame(dicts)\<close> on a list of flight dicts: the keys are the columns; an empty
  list gives a frame with no columns at all.
\<close>

definition DataFrame :: "flight list \<Rightarrow> frame" where
  "DataFrame dicts =
     (if dicts = [] then \<lparr>columns = [], rws = []\<rparr>
      else \<lparr>columns = flight_columns, rws = map flight_row dicts\<rparr>)"

subsection \<open>The flight form (\<^verbatim>\<open>app.py\<close>, Tab 2)\<close>

definition FLIGHTS_FILE :: string where
  "FLIGHTS_FILE = ''flights.csv''"

text \<open>
  The widgets' values: the date (as ISO text), the airline, the two code fields as typed
  and the miles. The codes are uppercased where they are read (lines 180-181).
\<close>

record flight_form =
  f_date :: string
  f_air :: string
  org_text :: string
  dst_text :: string
  f_miles :: int

datatype notice = St_success string | St_error string

definition save_flight ::
  "(string \<Rightarrow> string) \<Rightarrow> (coord \<Rightarrow> coord \<Rightarrow> real) \<Rightarrow> (frame \<Rightarrow> frame) \<Rightarrow> store \<Rightarrow> flight_form
     \<Rightarrow> py_error + store \<times> notice" where
  "save_flight up gd reread fs form =
     (let f_org = up (org_text form); f_dst = up (dst_text form)
      in case (AIRPORT_DB f_org, AIRPORT_DB f_dst) of
           (Some (olat, olon), Some (dlat, dlon)) \<Rightarrow>
             (let miles = (if f_miles form = 0 then calculate_distance gd f_org f_dst
                           else f_miles form);
                  new_row = DataFrame
                    [\<lparr>Date = f_date form, Airline = f_air form, Origin = f_org,
                      Destination = f_dst, Miles = miles, Origin_Lat = olat,
                      Origin_Lon = olon, Dest_Lat = dlat, Dest_Lon = dlon\<rparr>]
              in bindE (append_row reread fs FLIGHTS_FILE new_row)
                   (\<lambda>fs'. Inr (fs', St_success (''Added '' @ f_org @ ''->'' @ f_dst))))
         | _ \<Rightarrow> Inr (fs, St_error ''Unknown Airport Code.''))"

section \<open>The batch importer (\<^verbatim>\<open>import_data.py\<close>)\<close>

subsection \<open>Flights\<close>

definition OUTPUT_FLIGHTS :: string where
  "OUTPUT_FLIGHTS = ''flights.csv''"

definition FLIGHT_DATA_FILE :: string where
  "FLIGHT_DATA_FILE = ''flightData.txt''"

text \<open>
  Lines 52-70: the miles and the four coordinates come from the reference table when both
  codes are in it, and stay at their zero initial values otherwise.
\<close>

definition batch_flight ::
  "(coord \<Rightarrow> coord \<Rightarrow> real) \<Rightarrow> string \<Rightarrow> string \<Rightarrow> string \<Rightarrow> flight" where
  "batch_flight gd date origin dest =
     (case (AIRPORT_DB origin, AIRPORT_DB dest) of
        (Some ostart, Some dend) \<Rightarrow>
          \<lparr>Date = date, Airline = ''American Airlines'', Origin = origin, Destination = dest,
           Miles = py_int (gd ostart dend), Origin_Lat = fst ostart, Origin_Lon = snd ostart,
           Dest_Lat = fst dend, Dest_Lon = snd dend\<rparr>
      | _ \<Rightarrow>
          \<lparr>Date = date, Airline = ''American Airlines'', Origin = origin, Destination = dest,
           Miles = 0, Origin_Lat = 0, Origin_Lon = 0, Dest_Lat = 0, Dest_Lon = 0\<rparr>)"

text \<open>
  The body of the loop over the activity cards (lines 38-70): \<open>Inr None\<close> when the card
  adds nothing to \<^verbatim>\<open>flights\<close>, \<open>Inr (Some f)\<close> when it appends \<open>f\<close>, \<open>Inl e\<close> when
  an exception leaves the function.
\<close>

definition process_card ::
  "(string \<Rightarrow> string) \<Rightarrow> (coord \<Rightarrow> coord \<Rightarrow> real) \<Rightarrow> (json \<Rightarrow> string option) \<Rightarrow> json
     \<Rightarrow> py_error + flight option" where
  "process_card up gd ymd acard =
     bindE (py_get acard ''summary'' (JObj [])) (\<lambda>summary.
     bindE (py_get acard ''details'' (JObj [])) (\<lambda>card_details.
     bindE (py_get card_details ''flightInfo'' (JObj [])) (\<lambda>details.
     bindE (py_get summary ''activityType'' JNull) (\<lambda>activity_type.
     bindE (py_get summary ''transactionDescription'' (JStr [])) (\<lambda>description.
     bindE (py_upper up description) (\<lambda>desc.
       if (activity_type = JStr ''Airline'' \<or> activity_type = JStr ''Award Issuance'')
          \<and> \<not> str_in ''REFUND'' desc
       then
         bindE (py_get details ''travelDate'' JNull) (\<lambda>travel_date.
         bindE (if truthy travel_date then Inr travel_date
                else py_get summary ''activityDate'' JNull) (\<lambda>date_str.
         bindE (py_get details ''origin'' JNull) (\<lambda>details_origin.
         bindE (if truthy details_origin then Inr details_origin
                else py_get summary ''origin'' JNull) (\<lambda>origin_value.
         bindE (py_upper up (py_or origin_value (JStr []))) (\<lambda>origin.
         bindE (py_get details ''destination'' JNull) (\<lambda>details_dest.
         bindE (if truthy details_dest then Inr details_dest
                else py_get summary ''destination'' JNull) (\<lambda>dest_value.
         bindE (py_upper up (py_or dest_value (JStr []))) (\<lambda>dest.
           if truthy date_str \<and> origin \<noteq> [] \<and> dest \<noteq> [] \<and> origin \<noteq> dest
           then (case ymd date_str of
                   None \<Rightarrow> Inl DateParseError
                 | Some date \<Rightarrow> Inr (Some (batch_flight gd date origin dest)))
           else Inr None))))))))
       else Inr None))))))"

fun collect_flights ::
  "(string \<Rightarrow> string) \<Rightarrow> (coord \<Rightarrow> coord \<Rightarrow> real) \<Rightarrow> (json \<Rightarrow> string option) \<Rightarrow> flight list
     \<Rightarrow> json list \<Rightarrow> py_error + flight list" where
  "collect_flights up gd ymd flights [] = Inr flights"
| "collect_flights up gd ymd flights (acard # cards) =
     (case process_card up gd ymd acard of
        Inl e \<Rightarrow> Inl e
      | Inr None \<Rightarrow> collect_flights up gd ymd flights cards
      | Inr (Some f) \<Rightarrow> collect_flights up gd ymd (flights @ [f]) cards)"

text \<open>
  \<^verbatim>\<open>df.drop_duplicates(inplace=True)\<close>: a row equal in every column to an earlier row is
  dropped, the first occurrence stays.
\<close>

fun keep_first :: "'a list \<Rightarrow> 'a list \<Rightarrow> 'a list" where
  "keep_first seen [] = []"
| "keep_first seen (x # xs) =
     (if x \<in> set seen then keep_first seen xs else x # keep_first (x # seen) xs)"

definition drop_duplicates :: "frame \<Rightarrow> frame" where
  "drop_duplicates df = df\<lparr>rws := keep_first [] (rws df)\<rparr>"

text \<open>
  What the stage prints: the missing input file, or the number of rows written.
\<close>

datatype report = Not_found string | Saved nat string

text \<open>
  Lines 35-70: the list \<^verbatim>\<open>flights\<close> built from the parsed input \<open>data\<close>.
\<close>

definition read_flights ::
  "(string \<Rightarrow> string) \<Rightarrow> (coord \<Rightarrow> coord \<Rightarrow> real) \<Rightarrow> (json \<Rightarrow> string option) \<Rightarrow> json
     \<Rightarrow> py_error + flight list" where
  "read_flights up gd ymd data =
     bindE (py_in ''activityCards'' data) (\<lambda>present.
       if present
       then bindE (py_index data ''activityCards'') (\<lambda>cards.
            bindE (py_iter cards) (collect_flights up gd ymd []))
       else Inr [])"

text \<open>
  The whole stage. \<open>input\<close> is the parsed content of the input file, \<open>None\<close> when the
  file is absent. An exception raised while the list is built leaves the function before
  anything is written.
\<close>

definition process_flights ::
  "(string \<Rightarrow> string) \<Rightarrow> (coord \<Rightarrow> coord \<Rightarrow> real) \<Rightarrow> (json \<Rightarrow> string option) \<Rightarrow> json option
     \<Rightarrow> store \<Rightarrow> py_error + store \<times> report" where
  "process_flights up gd ymd input fs =
     (case input of
        None \<Rightarrow> Inr (fs, Not_found FLIGHT_DATA_FILE)
      | Some data \<Rightarrow>
          bindE (read_flights up gd ymd data) (\<lambda>flights.
            let df = drop_duplicates (DataFrame flights)
            in Inr (save_data df OUTPUT_FLIGHTS fs, Saved (length (rws df)) OUTPUT_FLIGHTS)))"

subsection \<open>Hotels\<close>

text \<open>
  Lines 102-108. What \<^verbatim>\<open>pd.to_datetime\<close> gives on a value other than \<^verbatim>\<open>None\<close> is
  a parameter: it raises (\<open>None\<close>), or gives the missing timestamp \<^verbatim>\<open>NaT\<close>, or a
  timestamp, with or without a time zone, at some count of nanoseconds since the epoch.
  \<^verbatim>\<open>pd.to_datetime(None)\<close> is \<^verbatim>\<open>None\<close>.
\<close>

datatype stamp = NaT | Timestamp bool int

definition pd_to_datetime :: "(json \<Rightarrow> stamp option) \<Rightarrow> json \<Rightarrow> py_error + stamp option" where
  "pd_to_datetime to_datetime x =
     (case x of
        JNull \<Rightarrow> Inr None
      | _ \<Rightarrow> (case to_datetime x of None \<Rightarrow> Inl DateParseError | Some t \<Rightarrow> Inr (Some t)))"

definition day_ns :: int where
  "day_ns = 86400000000000"

text \<open>
  \<^verbatim>\<open>(e - s).days\<close>: the subtraction raises when an operand is \<^verbatim>\<open>None\<close>, and when one
  timestamp has a time zone and the other has none; with \<^verbatim>\<open>NaT\<close> on a side the
  difference is \<^verbatim>\<open>NaT\<close>, whose days are the float \<^verbatim>\<open>nan\<close>; otherwise the days are the
  floor of the difference in whole days.
\<close>

fun minus_days :: "stamp option \<Rightarrow> stamp option \<Rightarrow> py_error + cell" where
  "minus_days (Some (Timestamp tz_e e)) (Some (Timestamp tz_s s)) =
     (if tz_e = tz_s then Inr (CInt ((e - s) div day_ns)) else Inl TypeError)"
| "minus_days (Some NaT) (Some t) = Inr CNaN"
| "minus_days (Some t) (Some NaT) = Inr CNaN"
| "minus_days e s = Inl TypeError"

text \<open>
  The whole \<^verbatim>\<open>try\<close> block: both parses and the subtraction are inside it, and the bare
  \<^verbatim>\<open>except\<close> turns every exception into one night.
\<close>

definition stay_nights :: "(json \<Rightarrow> stamp option) \<Rightarrow> json \<Rightarrow> json \<Rightarrow> cell" where
  "stay_nights to_datetime start end =
     (case bindE (pd_to_datetime to_datetime start) (\<lambda>s.
           bindE (pd_to_datetime to_datetime end) (\<lambda>e. minus_days e s)) of
        Inl exn \<Rightarrow> CInt 1
      | Inr nights \<Rightarrow> nights)"

text \<open>The nights of a STAY node, whose dates are read with \<^verbatim>\<open>node.get\<close> (lines 92-93).\<close>

definition node_nights :: "(json \<Rightarrow> stamp option) \<Rightarrow> (string \<times> json) list \<Rightarrow> cell" where
  "node_nights to_datetime node =
     stay_nights to_datetime (dict_get node ''startDate'' JNull) (dict_get node ''endDate'' JNull)"

text \<open>Line 120: the city of a geocoded stay, from the address parts \<open>raw\<close>.\<close>

definition batch_city :: "(string \<times> json) list \<Rightarrow> json" where
  "batch_city raw =
     dict_get raw ''city'' (dict_get raw ''town'' (dict_get raw ''village'' (JStr ''Unknown'')))"

section \<open>The hotel form (\<^verbatim>\<open>app.py\<close>, Tab 3)\<close>





text \<open>Line 245: the city the form is prefilled with, from the address parts \<open>raw\<close>.\<close>

definition default_city :: "(string \<times> json) list \<Rightarrow> json" where
  "default_city raw =
     dict_get raw ''city'' (dict_get raw ''town'' (dict_get raw ''village''
       (dict_get raw ''county'' (JStr []))))"

section \<open>The dashboard (\<^verbatim>\<open>app.py\<close>, Tab 1)\<close>

text \<open>
  Lines 89-97, on the rows \<^verbatim>\<open>f_df\<close> left by the date filter. \<^verbatim>\<open>sorted\<close> on two codes
  puts the smaller first in the order of their characters; \<^verbatim>\<open>value_counts\<close> counts the
  rows of each route id, and every row is given the count of its own id.
\<close>

definition route_id :: "string \<Rightarrow> string \<Rightarrow> string" where
  "route_id origin dest =
     (if dest < origin then dest @ ''-'' @ origin else origin @ ''-'' @ dest)"

definition route_ids :: "flight list \<Rightarrow> string list" where
  "route_ids f_df = map (\<lambda>x. route_id (Origin x) (Destination x)) f_df"

definition frequency :: "flight list \<Rightarrow> nat list" where
  "frequency f_df = map (count_list (route_ids f_df)) (route_ids f_df)"

definition get_color :: "nat \<Rightarrow> nat list" where
  "get_color freq =
     (if freq \<ge> 5 then [255, 0, 0, 200]
      else if freq \<ge> 3 then [255, 165, 0, 200]
      else [0, 128, 255, 150])"

definition colors :: "flight list \<Rightarrow> nat list list" where
  "colors f_df = map get_color (frequency f_df)"

section \<open>The specification's notions\<close>

text \<open>
  The definitions of this section follow the specification's words, not the code; the
  theorems compare the code with them.
\<close>

text \<open>The first present value of a chain of keys, or the default.\<close>

fun first_present :: "(string \<times> json) list \<Rightarrow> string list \<Rightarrow> json \<Rightarrow> json" where
  "first_present raw [] dflt = dflt"
| "first_present raw (k # ks) dflt =
     (case map_of raw k of Some v \<Rightarrow> v | None \<Rightarrow> first_present raw ks dflt)"


text \<open>
  Two flights are on the same route when their unordered pairs of codes are equal; the
  count of a route in a list of flights is the number of flights on it.
\<close>

definition same_route :: "flight \<Rightarrow> flight \<Rightarrow> bool" where
  "same_route r r' \<longleftrightarrow> {Origin r, Destination r} = {Origin r', Destination r'}"

definition route_count :: "flight list \<Rightarrow> flight \<Rightarrow> nat" where
  "route_count f_df r = length (filter (same_route r) f_df)"




















section \<open>Sample inputs\<close>

text \<open>
  Concrete readings of the library calls, for the examples below: \<^verbatim>\<open>str.upper()\<close> as
  it is on ASCII text; a geodesic that is 0 between equal points and 2475.9 miles
  otherwise; a date reader that knows the two dates of the examples (midnight, no time
  zone, in nanoseconds), reads the empty text as \<^verbatim>\<open>NaT\<close> and raises on anything else;
  and a reading of a written file that gives the missing value for an empty text and for
  the text NA and leaves every other cell as written.
\<close>

definition upper_char :: "char \<Rightarrow> char" where
  "upper_char c =
     (case map_of (zip ''abcdefghijklmnopqrstuvwxyz'' ''ABCDEFGHIJKLMNOPQRSTUVWXYZ'') c of
        Some u \<Rightarrow> u
      | None \<Rightarrow> c)"

definition upper :: "string \<Rightarrow> string" where
  "upper s = map upper_char s"

definition sample_gd :: "coord \<Rightarrow> coord \<Rightarrow> real" where
  "sample_gd start end = (if start = end then 0 else 2475.9)"

definition sample_dates :: "(string \<times> int) list" where
  "sample_dates =
     [(''2025-03-01'', 1740787200000000000), (''2025-03-04'', 1741046400000000000)]"

definition sample_ymd :: "json \<Rightarrow> string option" where
  "sample_ymd x =
     (case x of JStr s \<Rightarrow> map_option (\<lambda>t. s) (map_of sample_dates s) | _ \<Rightarrow> None)"

definition sample_to_datetime :: "json \<Rightarrow> stamp option" where
  "sample_to_datetime x =
     (case x of
        JStr s \<Rightarrow> (if s = [] then Some NaT
                   else map_option (Timestamp False) (map_of sample_dates s))
      | _ \<Rightarrow> None)"

definition na_cell :: "cell \<Rightarrow> cell" where
  "na_cell c = (if c = CStr [] \<or> c = CStr ''NA'' then CNaN else c)"

definition sample_reread :: "frame \<Rightarrow> frame" where
  "sample_reread df = df\<lparr>rws := map (map na_cell) (rws df)\<rparr>"

definition form_jfk_lax :: flight_form where
  "form_jfk_lax = \<lparr>f_date = ''2025-03-01'', f_air = ''Delta'', org_text = ''JFK'',
     dst_text = ''LAX'', f_miles = 0\<rparr>"

definition form_unknown :: flight_form where
  "form_unknown = \<lparr>f_date = ''2025-03-01'', f_air = ''Delta'', org_text = ''JFK'',
     dst_text = ''XNA'', f_miles = 0\<rparr>"

definition form_jfk_jfk :: flight_form where
  "form_jfk_jfk = \<lparr>f_date = ''2025-03-01'', f_air = ''Delta'', org_text = ''JFK'',
     dst_text = ''JFK'', f_miles = 0\<rparr>"

text \<open>An airline activity card from JFK to an airport the reference table lacks.\<close>

definition card_jfk_xna :: json where
  "card_jfk_xna =
     JObj [(''summary'', JObj [(''activityType'', JStr ''Airline''),
        (''transactionDescription'', JStr ''Flight''),
        (''activityDate'', JStr ''2025-03-01''),
        (''origin'', JStr ''jfk''), (''destination'', JStr ''xna'')])]"

text \<open>STAY nodes: a stay that ends on the day it starts, one of three nights, one with no end date.\<close>

definition node_same_day :: "(string \<times> json) list" where
  "node_same_day = [(''startDate'', JStr ''2025-03-01''), (''endDate'', JStr ''2025-03-01'')]"

definition node_three_nights :: "(string \<times> json) list" where
  "node_three_nights = [(''startDate'', JStr ''2025-03-01''), (''endDate'', JStr ''2025-03-04'')]"

definition node_no_end :: "(string \<times> json) list" where
  "node_no_end = [(''startDate'', JStr ''2025-03-01'')]"

text \<open>
  An export with three cards: the same flight from JFK to LAX twice, and the flight back.
\<close>

definition card_jfk_lax :: json where
  "card_jfk_lax =
     JObj [(''summary'', JObj [(''activityType'', JStr ''Airline''),
        (''transactionDescription'', JStr ''Flight''),
        (''activityDate'', JStr ''2025-03-01''),
        (''origin'', JStr ''JFK''), (''destination'', JStr ''LAX'')])]"

definition card_lax_jfk :: json where
  "card_lax_jfk =
     JObj [(''summary'', JObj [(''activityType'', JStr ''Airline''),
        (''transactionDescription'', JStr ''Flight''),
        (''activityDate'', JStr ''2025-03-04''),
        (''origin'', JStr ''LAX''), (''destination'', JStr ''JFK'')])]"

definition data_three_cards :: json where
  "data_three_cards = JObj [(''activityCards'', JArr [card_jfk_lax, card_lax_jfk, card_jfk_lax])]"

definition flight_jfk_lax :: flight where
  "flight_jfk_lax =
     \<lparr>Date = ''2025-03-01'', Airline = ''American Airlines'', Origin = ''JFK'',
      Destination = ''LAX'', Miles = 2475, Origin_Lat = 40.6413, Origin_Lon = -73.7781,
      Dest_Lat = 33.9416, Dest_Lon = -118.4085\<rparr>"

definition flight_lax_jfk :: flight where
  "flight_lax_jfk =
     \<lparr>Date = ''2025-03-04'', Airline = ''American Airlines'', Origin = ''LAX'',
      Destination = ''JFK'', Miles = 2475, Origin_Lat = 33.9416, Origin_Lon = -118.4085,
      Dest_Lat = 40.6413, Dest_Lon = -73.7781\<rparr>"




text \<open>Five, three and one flight between JFK and LAX, in either direction.\<close>

definition five_flights :: "flight list" where
  "five_flights = [flight_jfk_lax, flight_lax_jfk, flight_jfk_lax, flight_lax_jfk, flight_jfk_lax]"

definition three_flights :: "flight list" where
  "three_flights = [flight_lax_jfk, flight_jfk_lax, flight_lax_jfk]"






section \<open>Properties\<close>

subsection \<open>Tables: concatenation and the cells of a flight row\<close>

lemma cell_of_reindex:
  "c \<in> set new_cols \<Longrightarrow>
   cell_of new_cols (reindex new_cols cols row) c =
     Some (case cell_of cols row c of Some v \<Rightarrow> v | None \<Rightarrow> CNaN)"
  unfolding cell_of_def reindex_def
  by (induction new_cols) auto

lemma columns_pd_concat:
  "set (columns (pd_concat a b)) = set (columns a) \<union> set (columns b)"
  by (auto simp: pd_concat_def Let_def)

lemma rws_pd_concat_one:
  "rws (pd_concat a \<lparr>columns = cs, rws = [r]\<rparr>) =
     map (reindex (columns (pd_concat a \<lparr>columns = cs, rws = [r]\<rparr>)) (columns a)) (rws a)
       @ [reindex (columns (pd_concat a \<lparr>columns = cs, rws = [r]\<rparr>)) cs r]"
  by (simp add: pd_concat_def Let_def)

lemma last_pd_concat_cell:
  assumes "c \<in> set cs"
  shows "cell_of (columns (pd_concat a \<lparr>columns = cs, rws = [r]\<rparr>))
           (last (rws (pd_concat a \<lparr>columns = cs, rws = [r]\<rparr>))) c =
         Some (case cell_of cs r c of Some v \<Rightarrow> v | None \<Rightarrow> CNaN)"
proof -
  have "c \<in> set (columns (pd_concat a \<lparr>columns = cs, rws = [r]\<rparr>))"
    using assms by (simp add: columns_pd_concat)
  then show ?thesis
    by (simp add: rws_pd_concat_one cell_of_reindex)
qed

lemma flight_cells:
  "cell_of flight_columns (flight_row f) ''Date'' = Some (CStr (Date f))"
  "cell_of flight_columns (flight_row f) ''Airline'' = Some (CStr (Airline f))"
  "cell_of flight_columns (flight_row f) ''Origin'' = Some (CStr (Origin f))"
  "cell_of flight_columns (flight_row f) ''Destination'' = Some (CStr (Destination f))"
  "cell_of flight_columns (flight_row f) ''Miles'' = Some (CInt (Miles f))"
  "cell_of flight_columns (flight_row f) ''Origin_Lat'' = Some (CFloat (Origin_Lat f))"
  "cell_of flight_columns (flight_row f) ''Origin_Lon'' = Some (CFloat (Origin_Lon f))"
  "cell_of flight_columns (flight_row f) ''Dest_Lat'' = Some (CFloat (Dest_Lat f))"
  "cell_of flight_columns (flight_row f) ''Dest_Lon'' = Some (CFloat (Dest_Lon f))"
  by (simp_all add: cell_of_def flight_columns_def flight_row_def)

lemma flight_columns_mem:
  "''Date'' \<in> set flight_columns" "''Airline'' \<in> set flight_columns"
  "''Origin'' \<in> set flight_columns" "''Destination'' \<in> set flight_columns"
  "''Miles'' \<in> set flight_columns" "''Origin_Lat'' \<in> set flight_columns"
  "''Origin_Lon'' \<in> set flight_columns" "''Dest_Lat'' \<in> set flight_columns"
  "''Dest_Lon'' \<in> set flight_columns"
  by (simp_all add: flight_columns_def)

subsection \<open>The flight form\<close>

lemma DataFrame_one: "DataFrame [f] = \<lparr>columns = flight_columns, rws = [flight_row f]\<rparr>"
  by (simp add: DataFrame_def)

lemma save_flight_rejected:
  assumes "AIRPORT_DB (up (org_text form)) = None \<or> AIRPORT_DB (up (dst_text form)) = None"
  shows "save_flight up gd reread fs form = Inr (fs, St_error ''Unknown Airport Code.'')"
  using assms by (auto simp: save_flight_def Let_def split: option.splits)

lemma save_flight_resolved:
  assumes "AIRPORT_DB (up (org_text form)) = Some o1" "AIRPORT_DB (up (dst_text form)) = Some d1"
  shows "save_flight up gd reread fs form =
    (case load_data reread fs FLIGHTS_FILE flight_columns of
       Inl e \<Rightarrow> Inl e
     | Inr df_curr \<Rightarrow>
         Inr (fs(FLIGHTS_FILE \<mapsto> pd_concat df_curr \<lparr>columns = flight_columns, rws =
               [flight_row \<lparr>Date = f_date form, Airline = f_air form,
                  Origin = up (org_text form), Destination = up (dst_text form),
                  Miles = (if f_miles form = 0 then py_int (gd o1 d1) else f_miles form),
                  Origin_Lat = fst o1, Origin_Lon = snd o1,
                  Dest_Lat = fst d1, Dest_Lon = snd d1\<rparr>]\<rparr>),
              St_success (''Added '' @ up (org_text form) @ ''->'' @ up (dst_text form))))"
  using assms
  by (cases o1; cases d1)
     (simp add: save_flight_def Let_def DataFrame_one append_row_def bindE_def save_data_def
        calculate_distance_def split: sum.splits)

lemma upper_samples:
  "upper ''JFK'' = ''JFK''" "upper ''LAX'' = ''LAX''" "upper ''XNA'' = ''XNA''"
  by (simp_all add: upper_def upper_char_def)

lemma airport_samples: 
  "AIRPORT_DB ''JFK'' = Some (40.6413, -73.7781)"
  "AIRPORT_DB ''LAX'' = Some (33.9416, -118.4085)"
  "AIRPORT_DB ''XNA'' = None"
  by (simp_all add: AIRPORT_DB_def)

text \<open>
  Claim C1. Manual flight submission, for every content of the form and of the store: if
  the uppercased origin or destination is not in the airport reference table, the handler
  shows the error and returns the store as it was; otherwise, if reading the current table
  raises, the exception leaves the handler, and if it returns a table, the handler writes
  that table with one more row and reports success. In the last row of the written table
  the Miles cell is the entered miles, or, when 0 was entered, the truncated geodesic
  distance between the two reference coordinates, and the four coordinate cells are the
  reference table's latitude and longitude of origin and destination.
\<close>

theorem manual_flight_submission:
  "(let org = up (org_text form); dst = up (dst_text form) in
    (AIRPORT_DB org = None \<or> AIRPORT_DB dst = None \<longrightarrow>
       save_flight up gd reread fs form = Inr (fs, St_error ''Unknown Airport Code.'')) \<and>
    (\<forall>o1 d1. AIRPORT_DB org = Some o1 \<and> AIRPORT_DB dst = Some d1 \<longrightarrow>
       (\<forall>e. load_data reread fs FLIGHTS_FILE flight_columns = Inl e \<longrightarrow>
            save_flight up gd reread fs form = Inl e) \<and>
       (\<forall>df_curr. load_data reread fs FLIGHTS_FILE flight_columns = Inr df_curr \<longrightarrow>
          (\<exists>df. save_flight up gd reread fs form =
                  Inr (fs(FLIGHTS_FILE \<mapsto> df), St_success (''Added '' @ org @ ''->'' @ dst)) \<and>
             rws df \<noteq> [] \<and>
             cell_of (columns df) (last (rws df)) ''Date'' = Some (CStr (f_date form)) \<and>
             cell_of (columns df) (last (rws df)) ''Airline'' = Some (CStr (f_air form)) \<and>
             cell_of (columns df) (last (rws df)) ''Origin'' = Some (CStr org) \<and>
             cell_of (columns df) (last (rws df)) ''Destination'' = Some (CStr dst) \<and>
             cell_of (columns df) (last (rws df)) ''Miles'' =
               Some (CInt (if f_miles form = 0 then py_int (gd o1 d1) else f_miles form)) \<and>
             cell_of (columns df) (last (rws df)) ''Origin_Lat'' = Some (CFloat (fst o1)) \<and>
             cell_of (columns df) (last (rws df)) ''Origin_Lon'' = Some (CFloat (snd o1)) \<and>
             cell_of (columns df) (last (rws df)) ''Dest_Lat'' = Some (CFloat (fst d1)) \<and>
             cell_of (columns df) (last (rws df)) ''Dest_Lon'' = Some (CFloat (snd d1))))))"
  unfolding Let_def
proof (intro conjI allI impI)
  assume "AIRPORT_DB (up (org_text form)) = None \<or> AIRPORT_DB (up (dst_text form)) = None"
  then show "save_flight up gd reread fs form = Inr (fs, St_error ''Unknown Airport Code.'')"
    by (rule save_flight_rejected)
next
  fix o1 d1 e
  assume "AIRPORT_DB (up (org_text form)) = Some o1 \<and> AIRPORT_DB (up (dst_text form)) = Some d1"
    and "load_data reread fs FLIGHTS_FILE flight_columns = Inl e"
  then show "save_flight up gd reread fs form = Inl e"
    by (simp add: save_flight_resolved)
next
  fix o1 d1 df_curr
  assume r: "AIRPORT_DB (up (org_text form)) = Some o1 \<and> AIRPORT_DB (up (dst_text form)) = Some d1"
    and l: "load_data reread fs FLIGHTS_FILE flight_columns = Inr df_curr"
  let ?f = "\<lparr>Date = f_date form, Airline = f_air form,
              Origin = up (org_text form), Destination = up (dst_text form),
              Miles = (if f_miles form = 0 then py_int (gd o1 d1) else f_miles form),
              Origin_Lat = fst o1, Origin_Lon = snd o1, Dest_Lat = fst d1, Dest_Lon = snd d1\<rparr>"
  let ?df = "pd_concat df_curr \<lparr>columns = flight_columns, rws = [flight_row ?f]\<rparr>"
  have s: "save_flight up gd reread fs form =
      Inr (fs(FLIGHTS_FILE \<mapsto> ?df),
           St_success (''Added '' @ up (org_text form) @ ''->'' @ up (dst_text form)))"
    using r l by (simp add: save_flight_resolved)
  have n: "rws ?df \<noteq> []"
    by (simp add: rws_pd_concat_one)
  have c: "cell_of (columns ?df) (last (rws ?df)) ''Date'' = Some (CStr (f_date form))"
      "cell_of (columns ?df) (last (rws ?df)) ''Airline'' = Some (CStr (f_air form))"
      "cell_of (columns ?df) (last (rws ?df)) ''Origin'' = Some (CStr (up (org_text form)))"
      "cell_of (columns ?df) (last (rws ?df)) ''Destination'' = Some (CStr (up (dst_text form)))"
      "cell_of (columns ?df) (last (rws ?df)) ''Miles'' =
         Some (CInt (if f_miles form = 0 then py_int (gd o1 d1) else f_miles form))"
      "cell_of (columns ?df) (last (rws ?df)) ''Origin_Lat'' = Some (CFloat (fst o1))"
      "cell_of (columns ?df) (last (rws ?df)) ''Origin_Lon'' = Some (CFloat (snd o1))"
      "cell_of (columns ?df) (last (rws ?df)) ''Dest_Lat'' = Some (CFloat (fst d1))"
      "cell_of (columns ?df) (last (rws ?df)) ''Dest_Lon'' = Some (CFloat (snd d1))"
    by (simp_all only: last_pd_concat_cell[OF flight_columns_mem(1)]
        last_pd_concat_cell[OF flight_columns_mem(2)] last_pd_concat_cell[OF flight_columns_mem(3)]
        last_pd_concat_cell[OF flight_columns_mem(4)] last_pd_concat_cell[OF flight_columns_mem(5)]
        last_pd_concat_cell[OF flight_columns_mem(6)] last_pd_concat_cell[OF flight_columns_mem(7)]
        last_pd_concat_cell[OF flight_columns_mem(8)] last_pd_concat_cell[OF flight_columns_mem(9)]
        flight_cells option.case flight.simps)
  show "\<exists>df. save_flight up gd reread fs form =
                  Inr (fs(FLIGHTS_FILE \<mapsto> df), St_success (''Added '' @ up (org_text form) @ ''->'' @ up (dst_text form))) \<and>
             rws df \<noteq> [] \<and>
             cell_of (columns df) (last (rws df)) ''Date'' = Some (CStr (f_date form)) \<and>
             cell_of (columns df) (last (rws df)) ''Airline'' = Some (CStr (f_air form)) \<and>
             cell_of (columns df) (last (rws df)) ''Origin'' = Some (CStr (up (org_text form))) \<and>
             cell_of (columns df) (last (rws df)) ''Destination'' = Some (CStr (up (dst_text form))) \<and>
             cell_of (columns df) (last (rws df)) ''Miles'' =
               Some (CInt (if f_miles form = 0 then py_int (gd o1 d1) else f_miles form)) \<and>
             cell_of (columns df) (last (rws df)) ''Origin_Lat'' = Some (CFloat (fst o1)) \<and>
             cell_of (columns df) (last (rws df)) ''Origin_Lon'' = Some (CFloat (snd o1)) \<and>
             cell_of (columns df) (last (rws df)) ''Dest_Lat'' = Some (CFloat (fst d1)) \<and>
             cell_of (columns df) (last (rws df)) ''Dest_Lon'' = Some (CFloat (snd d1))"
    using s n c by (intro exI[of _ ?df] conjI)
qed

theorem manual_flight_submission_witness:
  "AIRPORT_DB (upper (dst_text form_unknown)) = None \<and>
   save_flight upper sample_gd sample_reread Map.empty form_unknown =
     Inr (Map.empty, St_error ''Unknown Airport Code.'') \<and>
   AIRPORT_DB (upper (org_text form_jfk_lax)) = Some (40.6413, -73.7781) \<and>
   AIRPORT_DB (upper (dst_text form_jfk_lax)) = Some (33.9416, -118.4085) \<and>
   load_data sample_reread Map.empty FLIGHTS_FILE flight_columns = Inr \<lparr>columns = flight_columns, rws = []\<rparr> \<and>
   (\<exists>df. save_flight upper sample_gd sample_reread Map.empty form_jfk_lax =
            Inr ([FLIGHTS_FILE \<mapsto> df], St_success ''Added JFK->LAX'') \<and>
      cell_of (columns df) (last (rws df)) ''Miles'' = Some (CInt 2475) \<and>
      cell_of (columns df) (last (rws df)) ''Origin_Lat'' = Some (CFloat 40.6413) \<and>
      cell_of (columns df) (last (rws df)) ''Origin_Lon'' = Some (CFloat (-73.7781)) \<and>
      cell_of (columns df) (last (rws df)) ''Dest_Lat'' = Some (CFloat 33.9416) \<and>
      cell_of (columns df) (last (rws df)) ''Dest_Lon'' = Some (CFloat (-118.4085)))"
proof -
  have u: "AIRPORT_DB (upper (dst_text form_unknown)) = None"
    by (simp add: form_unknown_def upper_samples airport_samples)
  have o: "AIRPORT_DB (upper (org_text form_jfk_lax)) = Some (40.6413, -73.7781)"
    and d: "AIRPORT_DB (upper (dst_text form_jfk_lax)) = Some (33.9416, -118.4085)"
    by (simp_all add: form_jfk_lax_def upper_samples airport_samples)
  have l: "load_data sample_reread Map.empty FLIGHTS_FILE flight_columns =
      Inr \<lparr>columns = flight_columns, rws = []\<rparr>"
    by (simp add: load_data_def read_csv_def)
  have m: "py_int (sample_gd (40.6413, -73.7781) (33.9416, -118.4085)) = 2475"
    by (simp add: py_int_def sample_gd_def)
  have t: "upper (org_text form_jfk_lax) = ''JFK''" "upper (dst_text form_jfk_lax) = ''LAX''"
    "f_miles form_jfk_lax = 0"
    by (simp_all add: form_jfk_lax_def upper_samples)
  from manual_flight_submission[of upper form_unknown sample_gd sample_reread Map.empty] u
  have 1: "save_flight upper sample_gd sample_reread Map.empty form_unknown =
     Inr (Map.empty, St_error ''Unknown Airport Code.'')"
    by (simp add: Let_def)
  note manual_flight_submission[of upper form_jfk_lax sample_gd sample_reread Map.empty, unfolded Let_def,
      THEN conjunct2, rule_format, OF conjI[OF o d], THEN conjunct2, rule_format, OF l]
  then have 2: "\<exists>df. save_flight upper sample_gd sample_reread Map.empty form_jfk_lax =
            Inr ([FLIGHTS_FILE \<mapsto> df], St_success ''Added JFK->LAX'') \<and>
      cell_of (columns df) (last (rws df)) ''Miles'' = Some (CInt 2475) \<and>
      cell_of (columns df) (last (rws df)) ''Origin_Lat'' = Some (CFloat 40.6413) \<and>
      cell_of (columns df) (last (rws df)) ''Origin_Lon'' = Some (CFloat (-73.7781)) \<and>
      cell_of (columns df) (last (rws df)) ''Dest_Lat'' = Some (CFloat 33.9416) \<and>
      cell_of (columns df) (last (rws df)) ''Dest_Lon'' = Some (CFloat (-118.4085))"
    unfolding t using m by auto
  from u 1 o d l 2 show ?thesis by (intro conjI)
qed


subsection \<open>The batch importer: the record of a card\<close>

lemma batch_flight_fields:
  "Origin (batch_flight gd date origin dest) = origin"
  "Destination (batch_flight gd date origin dest) = dest"
  "Date (batch_flight gd date origin dest) = date"
  "Airline (batch_flight gd date origin dest) = ''American Airlines''"
  by (simp_all add: batch_flight_def split: option.splits)

lemma batch_flight_absent:
  assumes "AIRPORT_DB origin = None \<or> AIRPORT_DB dest = None"
  shows "batch_flight gd date origin dest =
    \<lparr>Date = date, Airline = ''American Airlines'', Origin = origin, Destination = dest,
     Miles = 0, Origin_Lat = 0, Origin_Lon = 0, Dest_Lat = 0, Dest_Lon = 0\<rparr>"
  using assms by (auto simp: batch_flight_def split: option.splits)

lemma process_card_SomeD:
  assumes "process_card up gd ymd acard = Inr (Some f)"
  shows "\<exists>date origin dest. f = batch_flight gd date origin dest
            \<and> origin \<noteq> [] \<and> dest \<noteq> [] \<and> origin \<noteq> dest"
  using assms unfolding process_card_def bindE_def
  by (auto split: sum.splits if_splits option.splits)

lemma upper_card_samples:
  "upper ''jfk'' = ''JFK''" "upper ''xna'' = ''XNA''"
  "upper ''Flight'' = ''FLIGHT''"
  by (simp_all add: upper_def upper_char_def)

lemma sample_ymd_0301: "sample_ymd (JStr ''2025-03-01'') = Some ''2025-03-01''"
  by (simp add: sample_ymd_def sample_dates_def)

lemma card_jfk_xna_flight:
  "process_card upper gd sample_ymd card_jfk_xna =
     Inr (Some \<lparr>Date = ''2025-03-01'', Airline = ''American Airlines'', Origin = ''JFK'',
       Destination = ''XNA'', Miles = 0, Origin_Lat = 0, Origin_Lon = 0, Dest_Lat = 0,
       Dest_Lon = 0\<rparr>)"
  by (simp add: process_card_def bindE_def card_jfk_xna_def dict_get_def py_or_def
      upper_card_samples sample_ymd_0301 batch_flight_def airport_samples)

text \<open>
  Claim C7. Distance degradation: \<open>calculate_distance\<close> returns 0 (it never raises)
  whenever one of the two codes is missing from the reference table; and a record the
  batch importer builds for a card whose origin or destination is missing from the table
  has Miles 0 and all four coordinates 0.
\<close>

theorem distance_degradation:
  "(AIRPORT_DB a = None \<or> AIRPORT_DB b = None \<longrightarrow> calculate_distance gd a b = 0) \<and>
   (process_card up gd ymd acard = Inr (Some f) \<and>
      (AIRPORT_DB (Origin f) = None \<or> AIRPORT_DB (Destination f) = None) \<longrightarrow>
      Miles f = 0 \<and> Origin_Lat f = 0 \<and> Origin_Lon f = 0 \<and> Dest_Lat f = 0 \<and> Dest_Lon f = 0)"
proof (intro conjI impI)
  assume "AIRPORT_DB a = None \<or> AIRPORT_DB b = None"
  then show "calculate_distance gd a b = 0"
    by (auto simp: calculate_distance_def split: option.splits)
next
  assume h: "process_card up gd ymd acard = Inr (Some f) \<and>
      (AIRPORT_DB (Origin f) = None \<or> AIRPORT_DB (Destination f) = None)"
  then obtain date origin dest where f: "f = batch_flight gd date origin dest"
    using process_card_SomeD by blast
  with h have "AIRPORT_DB origin = None \<or> AIRPORT_DB dest = None"
    by (simp add: batch_flight_fields)
  from batch_flight_absent[OF this] f
  have "f = \<lparr>Date = date, Airline = ''American Airlines'', Origin = origin, Destination = dest,
     Miles = 0, Origin_Lat = 0, Origin_Lon = 0, Dest_Lat = 0, Dest_Lon = 0\<rparr>" by simp
  then show "Miles f = 0" "Origin_Lat f = 0" "Origin_Lon f = 0" "Dest_Lat f = 0" "Dest_Lon f = 0"
    by simp_all
qed

theorem distance_degradation_witness:
  "AIRPORT_DB ''XNA'' = None \<and> calculate_distance sample_gd ''JFK'' ''XNA'' = 0 \<and>
   process_card upper sample_gd sample_ymd card_jfk_xna =
     Inr (Some \<lparr>Date = ''2025-03-01'', Airline = ''American Airlines'', Origin = ''JFK'',
       Destination = ''XNA'', Miles = 0, Origin_Lat = 0, Origin_Lon = 0, Dest_Lat = 0,
       Dest_Lon = 0\<rparr>)"
  using distance_degradation[of "''JFK''" "''XNA''" sample_gd upper sample_ymd card_jfk_xna
      "\<lparr>Date = ''2025-03-01'', Airline = ''American Airlines'', Origin = ''JFK'',
       Destination = ''XNA'', Miles = 0, Origin_Lat = 0, Origin_Lon = 0, Dest_Lat = 0,
       Dest_Lon = 0\<rparr>"]
  by (simp add: airport_samples card_jfk_xna_flight)

text \<open>
  Every record of the batch importer has two different codes: the guard of line 50.
\<close>

lemma batch_origin_differs:
  "process_card up gd ymd acard = Inr (Some f) \<Longrightarrow> Origin f \<noteq> Destination f"
  by (auto dest!: process_card_SomeD simp: batch_flight_fields)

text \<open>
  Claim C5. The invariant \<open>Origin \<noteq> Destination\<close> holds on the batch path
  (\<open>batch_origin_differs\<close>) and fails on the manual path, which only checks that both
  codes are in the reference table: the form with JFK as origin and as destination is
  saved, as a row with equal codes, equal coordinates and 0 miles.
\<close>

theorem manual_same_airport_saved:
  "save_flight upper sample_gd sample_reread Map.empty form_jfk_jfk =
     Inr ([FLIGHTS_FILE \<mapsto> \<lparr>columns = flight_columns, rws =
            [[CStr ''2025-03-01'', CStr ''Delta'', CStr ''JFK'', CStr ''JFK'', CInt 0,
              CFloat 40.6413, CFloat (-73.7781), CFloat 40.6413, CFloat (-73.7781)]]\<rparr>],
          St_success ''Added JFK->JFK'')"
  by (simp add: save_flight_resolved[where ?o1.0 = "(40.6413, -73.7781)" and ?d1.0 = "(40.6413, -73.7781)"]
      form_jfk_jfk_def upper_samples airport_samples load_data_def read_csv_def
      pd_concat_def reindex_def cell_of_def flight_columns_def flight_row_def py_int_def sample_gd_def)


subsection \<open>The city of a geocoded place\<close>

text \<open>
  The two chains as the code has them: the form falls back to the county, the batch
  importer does not; an address with a town and no city gives the town on both paths.
\<close>

lemma default_city_chain:
  "default_city raw = first_present raw [''city'', ''town'', ''village'', ''county''] (JStr [])"
  by (simp add: default_city_def dict_get_def split: option.splits)

lemma batch_city_chain:
  "batch_city raw = first_present raw [''city'', ''town'', ''village''] (JStr ''Unknown'')"
  by (simp add: batch_city_def dict_get_def split: option.splits)

lemma town_only_city:
  "map_of raw ''city'' = None \<Longrightarrow> map_of raw ''town'' = Some v \<Longrightarrow>
     default_city raw = v \<and> batch_city raw = v"
  by (simp add: default_city_def batch_city_def dict_get_def)

text \<open>
  Claim C4. The fallback chain city, town, village, county holds on the manual path
  (\<open>default_city_chain\<close>); the batch path stops after the village, so address parts that
  hold only a county give the county on the manual path and \<^verbatim>\<open>Unknown\<close> on the batch
  path, where the chain of the claim would give the county.
\<close>

theorem county_only_city:
  "default_city [(''county'', JStr ''Cook County'')] = JStr ''Cook County'' \<and>
   batch_city [(''county'', JStr ''Cook County'')] = JStr ''Unknown'' \<and>
   first_present [(''county'', JStr ''Cook County'')] [''city'', ''town'', ''village'', ''county'']
     (JStr ''Unknown'') = JStr ''Cook County''"
  by (simp add: default_city_def batch_city_def dict_get_def)


subsection \<open>The nights of a stay\<close>

text \<open>
  What the \<^verbatim>\<open>try\<close> block gives: one night when a date is missing or its parse raises,
  and the floor of the difference in days when both dates are read as timestamps of the
  same kind.
\<close>

lemma pd_to_datetime_value:
  "x \<noteq> JNull \<Longrightarrow>
   pd_to_datetime to_datetime x =
     (case to_datetime x of None \<Rightarrow> Inl DateParseError | Some t \<Rightarrow> Inr (Some t))"
  by (cases x) (simp_all add: pd_to_datetime_def)

lemma pd_to_datetime_null: "pd_to_datetime to_datetime JNull = Inr None"
  by (simp add: pd_to_datetime_def)

lemma minus_days_none_right: "minus_days e None = Inl TypeError"
proof (cases e)
  case None
  then show ?thesis by simp
next
  case (Some t)
  then show ?thesis by (cases t) simp_all
qed

lemma minus_days_none_left: "minus_days None s = Inl TypeError"
  by simp

lemmas minus_days_none = minus_days_none_right minus_days_none_left

lemma stay_nights_default:
  assumes "start = JNull \<or> end = JNull \<or> to_datetime start = None \<or> to_datetime end = None"
  shows "stay_nights to_datetime start end = CInt 1"
proof (cases "start = JNull")
  case True
  then show ?thesis
    by (cases "pd_to_datetime to_datetime end")
       (simp_all add: stay_nights_def pd_to_datetime_null bindE_def minus_days_none)
next
  case s: False
  show ?thesis
  proof (cases "to_datetime start")
    case None
    with s show ?thesis
      by (simp add: stay_nights_def pd_to_datetime_value bindE_def)
  next
    case (Some t)
    with assms s have e: "end = JNull \<or> to_datetime end = None" by auto
    show ?thesis
    proof (cases "end = JNull")
      case True
      with s Some show ?thesis
        by (simp add: stay_nights_def pd_to_datetime_value pd_to_datetime_null bindE_def
            minus_days_none)
    next
      case False
      with e s Some show ?thesis
        by (simp add: stay_nights_def pd_to_datetime_value bindE_def)
    qed
  qed
qed

lemma stay_nights_difference:
  assumes "start \<noteq> JNull" "end \<noteq> JNull"
    "to_datetime start = Some (Timestamp tz s)" "to_datetime end = Some (Timestamp tz e)"
  shows "stay_nights to_datetime start end = CInt ((e - s) div day_ns)"
  using assms
  by (simp add: stay_nights_def pd_to_datetime_value bindE_def)

text \<open>
  Claim C3. The default of one night covers a missing date and a date that does not
  parse, and the nights of a stay with parsed dates are the whole days between them; but
  the code has no default for an end date that equals or precedes the start date: a STAY
  node that starts and ends on 2025-03-01 gets 0 nights, where the claim says 1 and never
  zero.
\<close>

theorem stay_nights_same_day_zero:
  "node_nights sample_to_datetime node_same_day = CInt 0 \<and>
   node_nights sample_to_datetime node_three_nights = CInt 3 \<and>
   node_nights sample_to_datetime node_no_end = CInt 1"
  by (simp add: node_nights_def stay_nights_def pd_to_datetime_def bindE_def dict_get_def
      node_same_day_def node_three_nights_def node_no_end_def
      sample_to_datetime_def sample_dates_def day_ns_def)

subsection \<open>The store: load, append, reload\<close>












subsection \<open>The batch importer: deduplication and the written table\<close>

lemma keep_first_set: "set (keep_first seen xs) = set xs - set seen"
  by (induction xs arbitrary: seen) auto

lemma keep_first_distinct: "distinct (keep_first seen xs)"
  by (induction xs arbitrary: seen) (auto simp: keep_first_set)

lemma flight_row_inj: "flight_row f = flight_row g \<longleftrightarrow> f = g"
  by (cases f; cases g) (auto simp: flight_row_def)

lemma rws_drop_duplicates_DataFrame:
  "rws (drop_duplicates (DataFrame flights)) = keep_first [] (map flight_row flights)"
  by (simp add: drop_duplicates_def DataFrame_def)

lemma count_list_distinct: "distinct xs \<Longrightarrow> x \<in> set xs \<Longrightarrow> count_list xs x = 1"
  by (induction xs) (auto simp: count_list_0_iff)

lemma sample_ymd_0304: "sample_ymd (JStr ''2025-03-04'') = Some ''2025-03-04''"
  by (simp add: sample_ymd_def sample_dates_def)

lemma card_jfk_lax_flight:
  "process_card upper sample_gd sample_ymd card_jfk_lax = Inr (Some flight_jfk_lax)"
  by (simp add: process_card_def bindE_def card_jfk_lax_def dict_get_def py_or_def
      upper_samples upper_card_samples sample_ymd_0301 batch_flight_def airport_samples
      flight_jfk_lax_def py_int_def sample_gd_def)

lemma card_lax_jfk_flight:
  "process_card upper sample_gd sample_ymd card_lax_jfk = Inr (Some flight_lax_jfk)"
  by (simp add: process_card_def bindE_def card_lax_jfk_def dict_get_def py_or_def
      upper_samples upper_card_samples sample_ymd_0304 batch_flight_def airport_samples
      flight_lax_jfk_def py_int_def sample_gd_def)

lemma data_three_cards_flights:
  "read_flights upper sample_gd sample_ymd data_three_cards =
     Inr [flight_jfk_lax, flight_lax_jfk, flight_jfk_lax]"
  by (simp add: read_flights_def data_three_cards_def bindE_def card_jfk_lax_flight
      card_lax_jfk_flight)

lemma sample_flights_differ: "flight_jfk_lax \<noteq> flight_lax_jfk"
  by (simp add: flight_jfk_lax_def flight_lax_jfk_def)



text \<open>
  Claim C8. Batch flight deduplication: whenever the list of accepted records is built
  without an exception, the stage writes a table whose rows are pairwise different, and
  whose rows are exactly the rows of the accepted records; so every accepted record occurs
  exactly once in the output, however often it was accepted. Rows are compared in full:
  two records give the same row only if they are equal in every field, so records that
  agree on a key and differ in any other field are both kept.
\<close>

theorem batch_deduplication:
  "read_flights up gd ymd data = Inr flights \<longrightarrow>
     (\<exists>df. process_flights up gd ymd (Some data) fs =
              Inr (fs(OUTPUT_FLIGHTS \<mapsto> df), Saved (length (rws df)) OUTPUT_FLIGHTS) \<and>
        distinct (rws df) \<and>
        set (rws df) = flight_row ` set flights \<and>
        (\<forall>f\<in>set flights. count_list (rws df) (flight_row f) = 1) \<and>
        (\<forall>f\<in>set flights. \<forall>g\<in>set flights. (flight_row f = flight_row g) = (f = g)))"
proof
  assume r: "read_flights up gd ymd data = Inr flights"
  let ?df = "drop_duplicates (DataFrame flights)"
  have p: "process_flights up gd ymd (Some data) fs =
      Inr (fs(OUTPUT_FLIGHTS \<mapsto> ?df), Saved (length (rws ?df)) OUTPUT_FLIGHTS)"
    using r by (simp add: process_flights_def bindE_def Let_def save_data_def)
  have d: "distinct (rws ?df)"
    by (simp add: rws_drop_duplicates_DataFrame keep_first_distinct)
  have s: "set (rws ?df) = flight_row ` set flights"
    by (simp add: rws_drop_duplicates_DataFrame keep_first_set)
  have c: "\<forall>f\<in>set flights. count_list (rws ?df) (flight_row f) = 1"
  proof
    fix f assume "f \<in> set flights"
    with s have "flight_row f \<in> set (rws ?df)" by blast
    with d show "count_list (rws ?df) (flight_row f) = 1" by (rule count_list_distinct)
  qed
  have i: "\<forall>f\<in>set flights. \<forall>g\<in>set flights. (flight_row f = flight_row g) = (f = g)"
    by (simp add: flight_row_inj)
  from p d s c i
  show "\<exists>df. process_flights up gd ymd (Some data) fs =
              Inr (fs(OUTPUT_FLIGHTS \<mapsto> df), Saved (length (rws df)) OUTPUT_FLIGHTS) \<and>
        distinct (rws df) \<and>
        set (rws df) = flight_row ` set flights \<and>
        (\<forall>f\<in>set flights. count_list (rws df) (flight_row f) = 1) \<and>
        (\<forall>f\<in>set flights. \<forall>g\<in>set flights. (flight_row f = flight_row g) = (f = g))"
    by (intro exI[of _ ?df] conjI)
qed

theorem batch_deduplication_witness:
  "read_flights upper sample_gd sample_ymd data_three_cards =
     Inr [flight_jfk_lax, flight_lax_jfk, flight_jfk_lax] \<and>
   process_flights upper sample_gd sample_ymd (Some data_three_cards) Map.empty =
     Inr ([OUTPUT_FLIGHTS \<mapsto> \<lparr>columns = flight_columns,
             rws = [flight_row flight_jfk_lax, flight_row flight_lax_jfk]\<rparr>],
          Saved 2 OUTPUT_FLIGHTS) \<and>
   count_list [flight_row flight_jfk_lax, flight_row flight_lax_jfk] (flight_row flight_jfk_lax) = 1"
proof -
  from batch_deduplication[of upper sample_gd sample_ymd data_three_cards
      "[flight_jfk_lax, flight_lax_jfk, flight_jfk_lax]" Map.empty] data_three_cards_flights
  obtain df where p: "process_flights upper sample_gd sample_ymd (Some data_three_cards) Map.empty =
      Inr ([OUTPUT_FLIGHTS \<mapsto> df], Saved (length (rws df)) OUTPUT_FLIGHTS)"
    and c: "count_list (rws df) (flight_row flight_jfk_lax) = 1"
    by auto
  have e: "process_flights upper sample_gd sample_ymd (Some data_three_cards) Map.empty =
     Inr ([OUTPUT_FLIGHTS \<mapsto> \<lparr>columns = flight_columns,
             rws = [flight_row flight_jfk_lax, flight_row flight_lax_jfk]\<rparr>],
          Saved 2 OUTPUT_FLIGHTS)"
    using sample_flights_differ
    by (simp add: process_flights_def data_three_cards_flights bindE_def Let_def save_data_def
        drop_duplicates_def DataFrame_def flight_row_inj)
  from p e have "df = \<lparr>columns = flight_columns,
             rws = [flight_row flight_jfk_lax, flight_row flight_lax_jfk]\<rparr>"
    by (metis Pair_inject map_upd_eqD1 old.sum.inject(2))
  with c have "count_list [flight_row flight_jfk_lax, flight_row flight_lax_jfk]
      (flight_row flight_jfk_lax) = 1" by simp
  with e data_three_cards_flights show ?thesis by simp
qed




subsection \<open>The dashboard: route frequency\<close>

lemma join_eq:
  "length (a::string) = length a' \<Longrightarrow> (a @ ''-'' @ b = a' @ ''-'' @ b') = (a = a' \<and> b = b')"
  by auto

lemma route_id_eq_iff:
  assumes "length origin = 3" "length dest = 3" "length origin' = 3" "length dest' = 3"
  shows "(route_id origin dest = route_id origin' dest') =
         ({origin, dest} = {origin', dest'})"
  using assms
  by (auto simp: route_id_def join_eq doubleton_eq_iff)

lemma count_list_map_eq:
  "count_list (map f xs) y = length (filter (\<lambda>x. f x = y) xs)"
  by (induction xs) auto

lemma frequency_nth:
  assumes "\<forall>r\<in>set f_df. length (Origin r) = 3 \<and> length (Destination r) = 3" "i < length f_df"
  shows "frequency f_df ! i = route_count f_df (f_df ! i)"
proof -
  let ?r = "f_df ! i"
  have r: "?r \<in> set f_df" using assms(2) by simp
  have "frequency f_df ! i = count_list (route_ids f_df) (route_id (Origin ?r) (Destination ?r))"
    using assms(2) by (simp add: frequency_def route_ids_def)
  also have "\<dots> = length (filter (\<lambda>x. route_id (Origin x) (Destination x) =
                                   route_id (Origin ?r) (Destination ?r)) f_df)"
    by (simp add: route_ids_def count_list_map_eq)
  also have "\<dots> = length (filter (same_route ?r) f_df)"
  proof -
    have "filter (\<lambda>x. route_id (Origin x) (Destination x) =
                      route_id (Origin ?r) (Destination ?r)) f_df = filter (same_route ?r) f_df"
    proof (rule filter_cong[OF refl])
      fix x assume "x \<in> set f_df"
      with assms(1) r have "length (Origin x) = 3" "length (Destination x) = 3"
        "length (Origin ?r) = 3" "length (Destination ?r) = 3" by auto
      from route_id_eq_iff[OF this]
      show "(route_id (Origin x) (Destination x) = route_id (Origin ?r) (Destination ?r)) =
            same_route ?r x"
        by (auto simp: same_route_def)
    qed
    then show ?thesis by simp
  qed
  finally show ?thesis by (simp add: route_count_def)
qed

lemma route_count_pos: "r \<in> set f_df \<Longrightarrow> 1 \<le> route_count f_df r"
proof -
  assume "r \<in> set f_df"
  then have "r \<in> set (filter (same_route r) f_df)" by (simp add: same_route_def)
  then have "filter (same_route r) f_df \<noteq> []" by (metis empty_iff empty_set)
  then show ?thesis by (simp add: route_count_def Suc_le_eq)
qed

lemma route_count_five: "route_count five_flights flight_jfk_lax = 5"
  by (simp add: route_count_def five_flights_def same_route_def flight_jfk_lax_def
      flight_lax_jfk_def doubleton_eq_iff)

lemma route_count_three: "route_count three_flights flight_lax_jfk = 3"
  by (simp add: route_count_def three_flights_def same_route_def flight_jfk_lax_def
      flight_lax_jfk_def doubleton_eq_iff)

lemma route_count_one: "route_count [flight_jfk_lax] flight_jfk_lax = 1"
  by (simp add: route_count_def same_route_def)

text \<open>
  Claim C9. Route-frequency classification, for flight records with three-letter codes:
  the frequency the dashboard gives a record of the filtered set is the number of records
  of that set with the same unordered pair of origin and destination; it is at least 1;
  the record is drawn red when that count is 5 or more, orange when it is 3 or 4, blue
  when it is 1 or 2. The colours are a function of the filtered rows alone, and the
  columns of the stored flight table hold no route id, frequency or colour.
\<close>

theorem route_frequency_classification:
  "(\<forall>r\<in>set f_df. length (Origin r) = 3 \<and> length (Destination r) = 3) \<and> i < length f_df \<longrightarrow>
     frequency f_df ! i = route_count f_df (f_df ! i) \<and>
     1 \<le> route_count f_df (f_df ! i) \<and>
     (5 \<le> route_count f_df (f_df ! i) \<longrightarrow> colors f_df ! i = [255, 0, 0, 200]) \<and>
     (route_count f_df (f_df ! i) = 3 \<or> route_count f_df (f_df ! i) = 4 \<longrightarrow>
        colors f_df ! i = [255, 165, 0, 200]) \<and>
     (route_count f_df (f_df ! i) = 1 \<or> route_count f_df (f_df ! i) = 2 \<longrightarrow>
        colors f_df ! i = [0, 128, 255, 150]) \<and>
     ''Route_ID'' \<notin> set flight_columns \<and> ''Frequency'' \<notin> set flight_columns \<and>
     ''Color'' \<notin> set flight_columns"
proof
  assume h: "(\<forall>r\<in>set f_df. length (Origin r) = 3 \<and> length (Destination r) = 3) \<and> i < length f_df"
  then have f: "frequency f_df ! i = route_count f_df (f_df ! i)"
    by (intro frequency_nth) auto
  have l: "length (frequency f_df) = length f_df"
    by (simp add: frequency_def route_ids_def)
  have c: "colors f_df ! i = get_color (route_count f_df (f_df ! i))"
    using h l f by (simp add: colors_def)
  have p: "1 \<le> route_count f_df (f_df ! i)"
    using h by (intro route_count_pos) simp
  show "frequency f_df ! i = route_count f_df (f_df ! i) \<and>
     1 \<le> route_count f_df (f_df ! i) \<and>
     (5 \<le> route_count f_df (f_df ! i) \<longrightarrow> colors f_df ! i = [255, 0, 0, 200]) \<and>
     (route_count f_df (f_df ! i) = 3 \<or> route_count f_df (f_df ! i) = 4 \<longrightarrow>
        colors f_df ! i = [255, 165, 0, 200]) \<and>
     (route_count f_df (f_df ! i) = 1 \<or> route_count f_df (f_df ! i) = 2 \<longrightarrow>
        colors f_df ! i = [0, 128, 255, 150]) \<and>
     ''Route_ID'' \<notin> set flight_columns \<and> ''Frequency'' \<notin> set flight_columns \<and>
     ''Color'' \<notin> set flight_columns"
    unfolding c using f p by (auto simp: get_color_def flight_columns_def)
qed

theorem route_frequency_classification_witness:
  "list_all (\<lambda>r. length (Origin r) = 3 \<and> length (Destination r) = 3) five_flights \<and>
   route_count five_flights (five_flights ! 0) = 5 \<and>
   frequency five_flights ! 0 = 5 \<and> colors five_flights ! 0 = [255, 0, 0, 200] \<and>
   route_count three_flights (three_flights ! 0) = 3 \<and>
   colors three_flights ! 0 = [255, 165, 0, 200] \<and>
   route_count [flight_jfk_lax] ([flight_jfk_lax] ! 0) = 1 \<and>
   colors [flight_jfk_lax] ! 0 = [0, 128, 255, 150]"
proof -
  have a: "\<forall>r\<in>set five_flights. length (Origin r) = 3 \<and> length (Destination r) = 3"
    "\<forall>r\<in>set three_flights. length (Origin r) = 3 \<and> length (Destination r) = 3"
    "\<forall>r\<in>set [flight_jfk_lax]. length (Origin r) = 3 \<and> length (Destination r) = 3"
    by (simp_all add: five_flights_def three_flights_def flight_jfk_lax_def flight_lax_jfk_def)
  have b: "five_flights ! 0 = flight_jfk_lax" "0 < length five_flights"
    "three_flights ! 0 = flight_lax_jfk" "0 < length three_flights"
    by (simp_all add: five_flights_def three_flights_def)
  from route_frequency_classification[of five_flights 0] a(1) b route_count_five
  have 1: "route_count five_flights (five_flights ! 0) = 5 \<and>
      frequency five_flights ! 0 = 5 \<and> colors five_flights ! 0 = [255, 0, 0, 200]"
    by simp
  from route_frequency_classification[of three_flights 0] a(2) b route_count_three
  have 2: "route_count three_flights (three_flights ! 0) = 3 \<and>
      colors three_flights ! 0 = [255, 165, 0, 200]"
    by simp
  from route_frequency_classification[of "[flight_jfk_lax]" 0] a(3) route_count_one
  have 3: "route_count [flight_jfk_lax] ([flight_jfk_lax] ! 0) = 1 \<and>
      colors [flight_jfk_lax] ! 0 = [0, 128, 255, 150]"
    by simp
  from a(1) 1 2 3 show ?thesis by (simp add: list_all_iff)
qed

subsection \<open>The batch importer: the acceptance filter\<close>





















end
